theory Spec2Isabelle
  imports Main "HOL-Library.Word"
begin

section \<open>Machine integers of the Go source\<close>

text \<open>
  Epochs and slots are Go \<^verbatim>\<open>uint64\<close>: addition, \<^verbatim>\<open>i++\<close> and subtraction wrap
  modulo \<open>2 ^ 64\<close>, comparisons are unsigned.
\<close>

type_synonym u64 = "64 word"

text \<open>
  A Go runtime panic. \<^verbatim>\<open>x % 0\<close> on integers panics with "integer divide by zero";
  indexing an array outside its length panics with "index out of range".
\<close>

datatype panic = DivideByZero | IndexOutOfRange

text \<open>
  \<^verbatim>\<open>int(x)\<close> for a \<^verbatim>\<open>uint64\<close> \<open>x\<close>: on the 64-bit platforms the client is built for,
  \<^verbatim>\<open>int\<close> is a signed 64-bit integer and the conversion keeps the bit pattern, so
  values from \<open>2 ^ 63\<close> on become negative.
\<close>

definition go_int :: "u64 \<Rightarrow> int" where
  "go_int x = sint x"

text \<open>\<^verbatim>\<open>a - b\<close> on Go \<^verbatim>\<open>int\<close>: two's complement, wrapping silently on overflow.\<close>

definition int_sub :: "int \<Rightarrow> int \<Rightarrow> int" where
  "int_sub a b = signed_take_bit 63 (a - b)"

section \<open>Configuration and the attestation history\<close>

text \<open>
  \<^verbatim>\<open>params.BeaconConfig()\<close>: the two constants the slashing protection reads. Their
  values are set outside the sources, so they are parameters of every function.
\<close>

record BeaconConfig =
  FarFutureEpoch :: u64
  WeakSubjectivityPeriod :: u64

text \<open>
  Modelled from the spec: the declaration of \<^verbatim>\<open>slashpb.AttestationHistory\<close> is not among
  the sources. The spec gives it as \<^verbatim>\<open>{latestEpochWritten: Epoch, targetToSource:
  fixed-size array of length = weak-subjectivity period, indexed by epoch mod period}\<close>.
  The array is a list; nothing here forces its length, so a read or a write outside it
  is a panic of the model, as it is of a Go array.
\<close>

record AttestationHistory =
  TargetToSource :: "u64 list"
  LatestEpochWritten :: u64

text \<open>
  \<^verbatim>\<open>history.TargetToSource[i%wsPeriod]\<close> as a read: the remainder is computed first
  (and panics for a zero period), then the array is indexed.
\<close>

definition read_slot :: "u64 list \<Rightarrow> u64 \<Rightarrow> u64 \<Rightarrow> panic + u64" where
  "read_slot tts i wsPeriod =
     (if wsPeriod = 0 then Inl DivideByZero
      else if unat (i mod wsPeriod) < length tts then Inr (tts ! unat (i mod wsPeriod))
      else Inl IndexOutOfRange)"

text \<open>\<^verbatim>\<open>history.TargetToSource[i%wsPeriod] = v\<close>.\<close>

definition write_slot :: "u64 list \<Rightarrow> u64 \<Rightarrow> u64 \<Rightarrow> u64 \<Rightarrow> panic + u64 list" where
  "write_slot tts i wsPeriod v =
     (if wsPeriod = 0 then Inl DivideByZero
      else if unat (i mod wsPeriod) < length tts then Inr (tts[unat (i mod wsPeriod) := v])
      else Inl IndexOutOfRange)"

section \<open>safeTargetToSource\<close>

text \<open>
  \<^verbatim>\<open>
  func safeTargetToSource(history *slashpb.AttestationHistory, targetEpoch uint64) uint64 {
      wsPeriod := params.BeaconConfig().WeakSubjectivityPeriod
      if targetEpoch > history.LatestEpochWritten ||
         int(targetEpoch) < int(history.LatestEpochWritten)-int(wsPeriod) {
          return params.BeaconConfig().FarFutureEpoch
      }
      return history.TargetToSource[targetEpoch%wsPeriod]
  }
  \<close>
\<close>

definition safeTargetToSource :: "BeaconConfig \<Rightarrow> AttestationHistory \<Rightarrow> u64 \<Rightarrow> panic + u64" where
  "safeTargetToSource cfg history targetEpoch =
     (let wsPeriod = WeakSubjectivityPeriod cfg in
      if targetEpoch > LatestEpochWritten history
         \<or> go_int targetEpoch < int_sub (go_int (LatestEpochWritten history)) (go_int wsPeriod)
      then Inr (FarFutureEpoch cfg)
      else read_slot (TargetToSource history) targetEpoch wsPeriod)"

section \<open>markAttestationForTargetEpoch\<close>

text \<open>
  The gap-clearing loop of \<^verbatim>\<open>markAttestationForTargetEpoch\<close>:
  \<^verbatim>\<open>
  for i := history.LatestEpochWritten + 1; i < targetEpoch && i <= maxToWrite; i++ {
      history.TargetToSource[i%wsPeriod] = params.BeaconConfig().FarFutureEpoch
  }
  \<close>
  It ends because \<open>i\<close> stays below \<open>targetEpoch\<close>, so \<^verbatim>\<open>i++\<close> never wraps.
\<close>

function clear_loop :: "BeaconConfig \<Rightarrow> u64 list \<Rightarrow> u64 \<Rightarrow> u64 \<Rightarrow> u64 \<Rightarrow> panic + u64 list" where
  "clear_loop cfg tts i targetEpoch maxToWrite =
     (if i < targetEpoch \<and> i \<le> maxToWrite then
        (case write_slot tts i (WeakSubjectivityPeriod cfg) (FarFutureEpoch cfg) of
           Inl p \<Rightarrow> Inl p
         | Inr tts' \<Rightarrow> clear_loop cfg tts' (i + 1) targetEpoch maxToWrite)
      else Inr tts)"
  by pat_completeness auto
termination
proof (relation "measure (\<lambda>(cfg, tts, i, targetEpoch, maxToWrite). unat targetEpoch - unat i)")
  show "wf (measure (\<lambda>(cfg, tts, i, targetEpoch, maxToWrite). unat targetEpoch - unat i))"
    by simp
next
  fix cfg :: BeaconConfig and tts :: "u64 list" and i targetEpoch maxToWrite :: u64
    and x2 :: "u64 list"
  assume a: "i < targetEpoch \<and> i \<le> maxToWrite"
  then have lt: "unat i < unat targetEpoch"
    by (simp add: word_less_nat_alt)
  have "unat targetEpoch < 2 ^ 64"
    using unsigned_less [of targetEpoch, where ?'a = nat] by simp
  with lt have "unat i + 1 < 2 ^ 64" by simp
  then have "unat (i + 1) = unat i + 1"
    by (simp add: unat_word_ariths)
  with lt show "((cfg, x2, i + 1, targetEpoch, maxToWrite), (cfg, tts, i, targetEpoch, maxToWrite))
      \<in> measure (\<lambda>(cfg, tts, i, targetEpoch, maxToWrite). unat targetEpoch - unat i)"
    by simp
qed

text \<open>
  \<^verbatim>\<open>
  func markAttestationForTargetEpoch(history, sourceEpoch, targetEpoch) *AttestationHistory {
      wsPeriod := params.BeaconConfig().WeakSubjectivityPeriod
      if targetEpoch > history.LatestEpochWritten {
          maxToWrite := history.LatestEpochWritten + wsPeriod
          for i := history.LatestEpochWritten + 1; i < targetEpoch && i <= maxToWrite; i++ {
              history.TargetToSource[i%wsPeriod] = params.BeaconConfig().FarFutureEpoch
          }
          history.LatestEpochWritten = targetEpoch
      }
      history.TargetToSource[targetEpoch%wsPeriod] = sourceEpoch
      return history
  }
  \<close>
  \<open>Inl\<close> is a panic on the way; \<open>Inr\<close> is the history returned.
\<close>

definition markAttestationForTargetEpoch ::
    "BeaconConfig \<Rightarrow> AttestationHistory \<Rightarrow> u64 \<Rightarrow> u64 \<Rightarrow> panic + AttestationHistory" where
  "markAttestationForTargetEpoch cfg history sourceEpoch targetEpoch =
     (let wsPeriod = WeakSubjectivityPeriod cfg in
      case (if targetEpoch > LatestEpochWritten history then
              (let maxToWrite = LatestEpochWritten history + wsPeriod in
               case clear_loop cfg (TargetToSource history) (LatestEpochWritten history + 1)
                      targetEpoch maxToWrite of
                 Inl p \<Rightarrow> Inl p
               | Inr tts \<Rightarrow>
                   Inr (history\<lparr>TargetToSource := tts, LatestEpochWritten := targetEpoch\<rparr>))
            else Inr history) of
        Inl p \<Rightarrow> Inl p
      | Inr h1 \<Rightarrow>
          (case write_slot (TargetToSource h1) targetEpoch wsPeriod sourceEpoch of
             Inl p \<Rightarrow> Inl p
           | Inr tts \<Rightarrow> Inr (h1\<lparr>TargetToSource := tts\<rparr>)))"

section \<open>isNewAttSlashable\<close>

text \<open>
  The surrounding check:
  \<^verbatim>\<open>
  for i := sourceEpoch; i <= targetEpoch; i++ {
      if safeTargetToSource(history, i) == farFuture { continue }
      if history.TargetToSource[i%wsPeriod] > sourceEpoch { return true }
  }
  \<close>
  With \<open>targetEpoch = 2 ^ 64 - 1\<close> the test \<^verbatim>\<open>i <= targetEpoch\<close> never fails and
  \<^verbatim>\<open>i++\<close> wraps, so the loop may run forever: not returning is \<open>None\<close>.
  \<open>Some (Inr True)\<close> is \<^verbatim>\<open>return true\<close>, \<open>Some (Inr False)\<close> is the loop running out.
\<close>

partial_function (option) surrounding_loop ::
    "BeaconConfig \<Rightarrow> AttestationHistory \<Rightarrow> u64 \<Rightarrow> u64 \<Rightarrow> u64 \<Rightarrow> (panic + bool) option" where
  "surrounding_loop cfg history sourceEpoch targetEpoch i =
     (if i \<le> targetEpoch then
        (case safeTargetToSource cfg history i of
           Inl p \<Rightarrow> Some (Inl p)
         | Inr v \<Rightarrow>
             if v = FarFutureEpoch cfg
             then surrounding_loop cfg history sourceEpoch targetEpoch (i + 1)
             else (case read_slot (TargetToSource history) i (WeakSubjectivityPeriod cfg) of
                     Inl p \<Rightarrow> Some (Inl p)
                   | Inr w \<Rightarrow>
                       if w > sourceEpoch then Some (Inr True)
                       else surrounding_loop cfg history sourceEpoch targetEpoch (i + 1)))
      else Some (Inr False))"

text \<open>
  The surrounded check:
  \<^verbatim>\<open>
  for i := targetEpoch; i <= history.LatestEpochWritten; i++ {
      if safeTargetToSource(history, i) < sourceEpoch { return true }
  }
  \<close>
\<close>

partial_function (option) surrounded_loop ::
    "BeaconConfig \<Rightarrow> AttestationHistory \<Rightarrow> u64 \<Rightarrow> u64 \<Rightarrow> (panic + bool) option" where
  "surrounded_loop cfg history sourceEpoch i =
     (if i \<le> LatestEpochWritten history then
        (case safeTargetToSource cfg history i of
           Inl p \<Rightarrow> Some (Inl p)
         | Inr v \<Rightarrow>
             if v < sourceEpoch then Some (Inr True)
             else surrounded_loop cfg history sourceEpoch (i + 1))
      else Some (Inr False))"

text \<open>
  \<^verbatim>\<open>
  func isNewAttSlashable(history, sourceEpoch uint64, targetEpoch uint64) bool {
      farFuture := params.BeaconConfig().FarFutureEpoch
      wsPeriod := params.BeaconConfig().WeakSubjectivityPeriod
      if int(targetEpoch) <= int(history.LatestEpochWritten)-int(wsPeriod) { return false }
      if safeTargetToSource(history, targetEpoch) != farFuture { return true }
      for ... surrounding ...
      for ... surrounded ...
      return false
  }
  \<close>
  \<open>None\<close>: the call does not return; \<open>Some (Inl p)\<close>: it panics; \<open>Some (Inr b)\<close>: it
  returns \<open>b\<close>.
\<close>

definition isNewAttSlashable ::
    "BeaconConfig \<Rightarrow> AttestationHistory \<Rightarrow> u64 \<Rightarrow> u64 \<Rightarrow> (panic + bool) option" where
  "isNewAttSlashable cfg history sourceEpoch targetEpoch =
     (let farFuture = FarFutureEpoch cfg;
          wsPeriod = WeakSubjectivityPeriod cfg in
      if go_int targetEpoch \<le> int_sub (go_int (LatestEpochWritten history)) (go_int wsPeriod)
      then Some (Inr False)
      else
        (case safeTargetToSource cfg history targetEpoch of
           Inl p \<Rightarrow> Some (Inl p)
         | Inr v \<Rightarrow>
             if v \<noteq> farFuture then Some (Inr True)
             else
               (case surrounding_loop cfg history sourceEpoch targetEpoch sourceEpoch of
                  None \<Rightarrow> None
                | Some (Inl p) \<Rightarrow> Some (Inl p)
                | Some (Inr True) \<Rightarrow> Some (Inr True)
                | Some (Inr False) \<Rightarrow> surrounded_loop cfg history sourceEpoch targetEpoch)))"

section \<open>The attester duty: data and collaborators\<close>

type_synonym bytes = "8 word list"

text \<open>
  Go \<^verbatim>\<open>error\<close> values: the two that \<^verbatim>\<open>duty\<close> makes itself, and whatever a
  collaborator returns.
\<close>

datatype error = NoDuties | PubkeyNotInDuties bytes | External string

text \<open>
  The messages of the \<^verbatim>\<open>ethpb\<close> library, with the fields the client reads:
  \<^verbatim>\<open>Checkpoint\<close>, \<^verbatim>\<open>AttestationData\<close>, \<^verbatim>\<open>Attestation\<close>, \<^verbatim>\<open>DutiesResponse_Duty\<close>
  and \<^verbatim>\<open>AttestResponse\<close>.
\<close>

record Checkpoint =
  Epoch :: u64
  Root :: bytes

record AttestationData =
  Slot :: u64
  CommitteeIndex :: u64
  BeaconBlockRoot :: bytes
  Source :: Checkpoint
  Target :: Checkpoint

record Attestation =
  AggregationBits :: "bool list"
  Data :: AttestationData
  Signature :: bytes

record Duty =
  Committee :: "u64 list"
  DutyCommitteeIndex :: u64
  PublicKey :: bytes
  ValidatorIndex :: u64

record AttestResponse =
  AttestationDataRoot :: bytes

text \<open>\<^verbatim>\<open>attSubmitted{data, attesterIndices, aggregatorIndices}\<close>, an entry of \<^verbatim>\<open>v.attLogs\<close>.\<close>

record attSubmitted =
  data :: AttestationData
  attesterIndices :: "u64 list"
  aggregatorIndices :: "u64 list"

text \<open>\<^verbatim>\<open>featureconfig.Get()\<close>: the one flag the attester reads.\<close>

record Flags =
  ProtectAttester :: bool

text \<open>
  The \<^verbatim>\<open>validator\<close> receiver. Its own fields are \<open>duties\<close> (\<open>None\<close> for \<^verbatim>\<open>nil\<close>),
  \<open>emitAccountMetrics\<close> and \<open>attLogs\<close>. Its collaborators are functions of what they are
  called with:
  \<^item> \<open>GetAttestationData n slot committeeIndex\<close>: the answer of the beacon node to the
    \<open>n\<close>-th call of \<^verbatim>\<open>v.validatorClient.GetAttestationData\<close> (the node may answer the
    same request differently each time);
  \<^item> \<open>ProposeAttestation\<close>, \<open>DomainData\<close> (by the target epoch, for the attester domain):
    the other two calls of \<^verbatim>\<open>v.validatorClient\<close>;
  \<^item> \<open>HashTreeRoot\<close> (\<^verbatim>\<open>ssz.HashTreeRoot\<close>), \<open>Sign\<close> (\<^verbatim>\<open>v.keyManager.Sign\<close>, marshalled),
    \<open>HashProto\<close> (\<^verbatim>\<open>hashutil.HashProto\<close>);
  \<^item> \<open>LoadAttestationHistory n\<close>: the answer of \<^verbatim>\<open>v.db.AttestationHistory\<close> to the
    \<open>n\<close>-th load for the key; \<open>SaveAttestationHistory\<close>: \<open>None\<close> when
    \<^verbatim>\<open>v.db.SaveAttestationHistory\<close> succeeds, the error otherwise.
  A load without an error gives a history (the spec: the store returns an empty history
  when it has none), and the candidates of the node have their source and target
  checkpoints, so no \<^verbatim>\<open>nil\<close> is dereferenced.
\<close>

record validator =
  duties :: "Duty list option"
  emitAccountMetrics :: bool
  attLogs :: "bytes \<rightharpoonup> attSubmitted"
  GetAttestationData :: "nat \<Rightarrow> u64 \<Rightarrow> u64 \<Rightarrow> error + AttestationData"
  ProposeAttestation :: "Attestation \<Rightarrow> error + AttestResponse"
  DomainData :: "u64 \<Rightarrow> error + bytes"
  HashTreeRoot :: "AttestationData \<Rightarrow> error + bytes"
  Sign :: "bytes \<Rightarrow> bytes \<Rightarrow> bytes \<Rightarrow> error + bytes"
  HashProto :: "AttestationData \<Rightarrow> error + bytes"
  LoadAttestationHistory :: "nat \<Rightarrow> error + AttestationHistory"
  SaveAttestationHistory :: "AttestationHistory \<Rightarrow> error option"

text \<open>
  What one call of \<^verbatim>\<open>SubmitAttestation\<close> does, as the calls it makes in order, and
  how it ends. Logging and tracing are left out.
\<close>

datatype event =
    LoadHistory
  | ConsultSlashable u64 u64
  | SignCall AttestationData
  | ProposeCall Attestation
  | SaveHistory AttestationHistory
  | IncFail
  | IncSuccess

datatype ending = Returned | Panicked panic | NeverReturns

record outcome =
  trace :: "event list"
  ending :: ending
  logs :: "bytes \<rightharpoonup> attSubmitted"

section \<open>duty, signAtt, saveAttesterIndexToData\<close>

text \<open>
  \<^verbatim>\<open>
  func (v *validator) duty(pubKey [48]byte) (*ethpb.DutiesResponse_Duty, error) {
      if v.duties == nil { return nil, errors.New("no duties for validators") }
      for _, duty := range v.duties.Duties {
          if bytes.Equal(pubKey[:], duty.PublicKey) { return duty, nil }
      }
      return nil, fmt.Errorf("pubkey %#x not in duties", bytesutil.Trunc(pubKey[:]))
  }
  \<close>
\<close>

definition duty :: "validator \<Rightarrow> bytes \<Rightarrow> error + Duty" where
  "duty v pubKey =
     (case duties v of
        None \<Rightarrow> Inl NoDuties
      | Some ds \<Rightarrow>
          (case find (\<lambda>d. pubKey = PublicKey d) ds of
             Some d \<Rightarrow> Inr d
           | None \<Rightarrow> Inl (PubkeyNotInDuties pubKey)))"

text \<open>
  \<^verbatim>\<open>
  func (v *validator) signAtt(ctx, pubKey [48]byte, data *ethpb.AttestationData) ([]byte, error) {
      domain, err := v.validatorClient.DomainData(ctx, &ethpb.DomainRequest{
          Epoch: data.Target.Epoch, Domain: params.BeaconConfig().DomainBeaconAttester})
      if err != nil { return nil, err }
      root, err := ssz.HashTreeRoot(data)
      if err != nil { return nil, err }
      sig, err := v.keyManager.Sign(pubKey, root, domain.SignatureDomain)
      if err != nil { return nil, err }
      return sig.Marshal(), nil
  }
  \<close>
\<close>

definition signAtt :: "validator \<Rightarrow> bytes \<Rightarrow> AttestationData \<Rightarrow> error + bytes" where
  "signAtt v pubKey d =
     (case DomainData v (Epoch (Target d)) of
        Inl err \<Rightarrow> Inl err
      | Inr domain \<Rightarrow>
          (case HashTreeRoot v d of
             Inl err \<Rightarrow> Inl err
           | Inr root \<Rightarrow>
               (case Sign v pubKey root domain of
                  Inl err \<Rightarrow> Inl err
                | Inr sig \<Rightarrow> Inr sig)))"

text \<open>
  \<^verbatim>\<open>
  func (v *validator) saveAttesterIndexToData(data *ethpb.AttestationData, index uint64) error {
      h, err := hashutil.HashProto(data)
      if err != nil { return err }
      if v.attLogs[h] == nil {
          v.attLogs[h] = &attSubmitted{data, []uint64{}, []uint64{}}
      }
      v.attLogs[h] = &attSubmitted{data, append(v.attLogs[h].attesterIndices, index), []uint64{}}
      return nil
  }
  \<close>
  The result is the error, or the updated \<^verbatim>\<open>v.attLogs\<close>.
\<close>

definition saveAttesterIndexToData ::
    "validator \<Rightarrow> AttestationData \<Rightarrow> u64 \<Rightarrow> error + (bytes \<rightharpoonup> attSubmitted)" where
  "saveAttesterIndexToData v d index =
     (case HashProto v d of
        Inl err \<Rightarrow> Inl err
      | Inr h \<Rightarrow>
          (let entry = (case attLogs v h of
                          None \<Rightarrow> \<lparr>data = d, attesterIndices = [], aggregatorIndices = []\<rparr>
                        | Some e \<Rightarrow> e)
           in Inr ((attLogs v)(h \<mapsto>
                \<lparr>data = d, attesterIndices = attesterIndices entry @ [index],
                 aggregatorIndices = []\<rparr>))))"

section \<open>SubmitAttestation\<close>

text \<open>
  Every failure exit of \<^verbatim>\<open>SubmitAttestation\<close> logs, counts the failure when
  \<^verbatim>\<open>v.emitAccountMetrics\<close> is set, and returns.
\<close>

definition failed :: "validator \<Rightarrow> event list \<Rightarrow> outcome" where
  "failed v tr =
     \<lparr>trace = tr @ (if emitAccountMetrics v then [IncFail] else []),
      ending = Returned, logs = attLogs v\<rparr>"

text \<open>
  The search of the committee for the validator's own index:
  \<^verbatim>\<open>
  for i, vID := range duty.Committee {
      if vID == duty.ValidatorIndex { indexInCommittee = uint64(i); found = true; break }
  }
  \<close>
  \<open>None\<close> is \<^verbatim>\<open>!found\<close>.
\<close>

fun committee_index :: "u64 list \<Rightarrow> u64 \<Rightarrow> nat \<Rightarrow> nat option" where
  "committee_index [] validatorIndex i = None"
| "committee_index (vID # rest) validatorIndex i =
     (if vID = validatorIndex then Some i else committee_index rest validatorIndex (Suc i))"

text \<open>
  Lines 201 to 222: the log annotation and the success counter.
\<close>

definition log_phase :: "validator \<Rightarrow> Duty \<Rightarrow> AttestationData \<Rightarrow> event list \<Rightarrow> outcome" where
  "log_phase v d data1 tr =
     (case saveAttesterIndexToData v data1 (ValidatorIndex d) of
        Inl err \<Rightarrow> failed v tr
      | Inr logs' \<Rightarrow>
          \<lparr>trace = tr @ (if emitAccountMetrics v then [IncSuccess] else []),
           ending = Returned, logs = logs'\<rparr>)"

text \<open>
  Lines 182 to 199, reached once both attestations are accepted:
  \<^verbatim>\<open>
  if featureconfig.Get().ProtectAttester {
      history, err := v.db.AttestationHistory(ctx, pubKey[:])
      if err != nil { ...; return }
      history = markAttestationForTargetEpoch(history, data1.Source.Epoch, data1.Target.Epoch)
      if err := v.db.SaveAttestationHistory(ctx, pubKey[:], history); err != nil { ...; return }
  }
  \<close>
  This is the second load of the history in the call.
\<close>

definition commit_phase ::
    "BeaconConfig \<Rightarrow> Flags \<Rightarrow> validator \<Rightarrow> Duty \<Rightarrow> AttestationData \<Rightarrow> event list \<Rightarrow> outcome" where
  "commit_phase cfg flags v d data1 tr =
     (if ProtectAttester flags then
        (case LoadAttestationHistory v 1 of
           Inl err \<Rightarrow> failed v (tr @ [LoadHistory])
         | Inr history \<Rightarrow>
             (case markAttestationForTargetEpoch cfg history
                     (Epoch (Source data1)) (Epoch (Target data1)) of
                Inl p \<Rightarrow>
                  \<lparr>trace = tr @ [LoadHistory], ending = Panicked p, logs = attLogs v\<rparr>
              | Inr history' \<Rightarrow>
                  (case SaveAttestationHistory v history' of
                     Some err \<Rightarrow> failed v (tr @ [LoadHistory, SaveHistory history'])
                   | None \<Rightarrow> log_phase v d data1 (tr @ [LoadHistory, SaveHistory history']))))
      else log_phase v d data1 tr)"

text \<open>
  Lines 132 to 180: the validator's position in the committee, the two attestations with
  the same one-bit aggregation bitfield, and their submission, the first before the
  second.
\<close>

definition submit_phase ::
    "BeaconConfig \<Rightarrow> Flags \<Rightarrow> validator \<Rightarrow> Duty \<Rightarrow> AttestationData \<Rightarrow> AttestationData \<Rightarrow>
     bytes \<Rightarrow> bytes \<Rightarrow> event list \<Rightarrow> outcome" where
  "submit_phase cfg flags v d data1 data2 sig1 sig2 tr =
     (case committee_index (Committee d) (ValidatorIndex d) 0 of
        None \<Rightarrow> failed v tr
      | Some indexInCommittee \<Rightarrow>
          (let aggregationBitfield =
                 (replicate (length (Committee d)) False)[indexInCommittee := True];
               attestation1 = \<lparr>AggregationBits = aggregationBitfield, Data = data1,
                                Signature = sig1\<rparr>;
               attestation2 = \<lparr>AggregationBits = aggregationBitfield, Data = data2,
                                Signature = sig2\<rparr>
           in case ProposeAttestation v attestation1 of
                Inl err \<Rightarrow> failed v (tr @ [ProposeCall attestation1])
              | Inr attResp1 \<Rightarrow>
                  (case ProposeAttestation v attestation2 of
                     Inl err \<Rightarrow>
                       failed v (tr @ [ProposeCall attestation1, ProposeCall attestation2])
                   | Inr attResp2 \<Rightarrow>
                       commit_phase cfg flags v d data1
                         (tr @ [ProposeCall attestation1, ProposeCall attestation2]))))"

text \<open>Lines 115 to 130: both candidates are signed, the first before the second.\<close>

definition sign_phase ::
    "BeaconConfig \<Rightarrow> Flags \<Rightarrow> validator \<Rightarrow> bytes \<Rightarrow> Duty \<Rightarrow> AttestationData \<Rightarrow>
     AttestationData \<Rightarrow> event list \<Rightarrow> outcome" where
  "sign_phase cfg flags v pubKey d data1 data2 tr =
     (case signAtt v pubKey data1 of
        Inl err \<Rightarrow> failed v (tr @ [SignCall data1])
      | Inr sig1 \<Rightarrow>
          (case signAtt v pubKey data2 of
             Inl err \<Rightarrow> failed v (tr @ [SignCall data1, SignCall data2])
           | Inr sig2 \<Rightarrow>
               submit_phase cfg flags v d data1 data2 sig1 sig2
                 (tr @ [SignCall data1, SignCall data2])))"

text \<open>
  Lines 94 to 113:
  \<^verbatim>\<open>
  if featureconfig.Get().ProtectAttester {
      history, err := v.db.AttestationHistory(ctx, pubKey[:])
      if err != nil { ...; return }
      if isNewAttSlashable(history, data1.Source.Epoch, data1.Target.Epoch) { ...; return }
  }
  \<close>
  Only \<open>data1\<close> is looked at. A call of \<open>isNewAttSlashable\<close> that panics or never returns
  ends \<^verbatim>\<open>SubmitAttestation\<close> the same way.
\<close>

definition protect_phase ::
    "BeaconConfig \<Rightarrow> Flags \<Rightarrow> validator \<Rightarrow> bytes \<Rightarrow> Duty \<Rightarrow> AttestationData \<Rightarrow>
     AttestationData \<Rightarrow> outcome" where
  "protect_phase cfg flags v pubKey d data1 data2 =
     (if ProtectAttester flags then
        (case LoadAttestationHistory v 0 of
           Inl err \<Rightarrow> failed v [LoadHistory]
         | Inr history \<Rightarrow>
             (let checked = [LoadHistory,
                    ConsultSlashable (Epoch (Source data1)) (Epoch (Target data1))]
              in case isNewAttSlashable cfg history
                        (Epoch (Source data1)) (Epoch (Target data1)) of
                   None \<Rightarrow> \<lparr>trace = checked, ending = NeverReturns, logs = attLogs v\<rparr>
                 | Some (Inl p) \<Rightarrow> \<lparr>trace = checked, ending = Panicked p, logs = attLogs v\<rparr>
                 | Some (Inr True) \<Rightarrow> failed v checked
                 | Some (Inr False) \<Rightarrow> sign_phase cfg flags v pubKey d data1 data2 checked))
      else sign_phase cfg flags v pubKey d data1 data2 [])"

text \<open>
  The loop that asks for the second candidate until its source epoch differs from the
  first one's:
  \<^verbatim>\<open>
  data2 := proto.Clone(data1).(*ethpb.AttestationData)
  for data1.Source.Epoch == data2.Source.Epoch {
      data2, err = v.validatorClient.GetAttestationData(ctx, req)
      if err != nil { ...; return }
  }
  \<close>
  \<open>n\<close> counts the calls made so far. A node that keeps answering with the same source
  epoch keeps the loop running: \<open>None\<close>.
\<close>

partial_function (option) fetch_data2 ::
    "validator \<Rightarrow> u64 \<Rightarrow> u64 \<Rightarrow> AttestationData \<Rightarrow> AttestationData \<Rightarrow> nat \<Rightarrow>
     (error + AttestationData) option" where
  "fetch_data2 v slot committeeIndex data1 data2 n =
     (if Epoch (Source data1) = Epoch (Source data2) then
        (case GetAttestationData v n slot committeeIndex of
           Inl err \<Rightarrow> Some (Inl err)
         | Inr d \<Rightarrow> fetch_data2 v slot committeeIndex data1 d (Suc n))
      else Some (Inr data2))"

text \<open>
  \<^verbatim>\<open>func (v *validator) SubmitAttestation(ctx context.Context, slot uint64, pubKey [48]byte)\<close>,
  lines 52 to 93 and then the phases above.
\<close>

definition SubmitAttestation ::
    "BeaconConfig \<Rightarrow> Flags \<Rightarrow> validator \<Rightarrow> u64 \<Rightarrow> bytes \<Rightarrow> outcome" where
  "SubmitAttestation cfg flags v slot pubKey =
     (case duty v pubKey of
        Inl err \<Rightarrow> failed v []
      | Inr d \<Rightarrow>
          (case GetAttestationData v 0 slot (DutyCommitteeIndex d) of
             Inl err \<Rightarrow> failed v []
           | Inr data1 \<Rightarrow>
               (case fetch_data2 v slot (DutyCommitteeIndex d) data1 data1 1 of
                  None \<Rightarrow> \<lparr>trace = [], ending = NeverReturns, logs = attLogs v\<rparr>
                | Some (Inl err) \<Rightarrow> failed v []
                | Some (Inr data2) \<Rightarrow> protect_phase cfg flags v pubKey d data1 data2)))"

section \<open>A run of the attester with a slashable second candidate\<close>

text \<open>
  The inputs of the concrete runs used below. The period is 8 and the sentinel is
  \<open>2 ^ 64 - 1\<close>. The stored history holds one vote, source 2 and target 3. The beacon
  node answers the first request with \<open>candidate1\<close> (source 3, target 4), which the
  history allows, and every later one with \<open>candidate2\<close> (source 1, target 5), which
  surrounds the stored vote. Every other collaborator succeeds.
\<close>

definition example_config :: BeaconConfig where
  "example_config = \<lparr>FarFutureEpoch = 18446744073709551615, WeakSubjectivityPeriod = 8\<rparr>"

definition example_history :: AttestationHistory where
  "example_history =
     \<lparr>TargetToSource =
        [18446744073709551615, 18446744073709551615, 18446744073709551615, 2,
         18446744073709551615, 18446744073709551615, 18446744073709551615,
         18446744073709551615],
      LatestEpochWritten = 3\<rparr>"

definition candidate1 :: AttestationData where
  "candidate1 =
     \<lparr>Slot = 160, CommitteeIndex = 0, BeaconBlockRoot = [],
      Source = \<lparr>Epoch = 3, Root = []\<rparr>, Target = \<lparr>Epoch = 4, Root = []\<rparr>\<rparr>"

definition candidate2 :: AttestationData where
  "candidate2 =
     \<lparr>Slot = 160, CommitteeIndex = 0, BeaconBlockRoot = [],
      Source = \<lparr>Epoch = 1, Root = []\<rparr>, Target = \<lparr>Epoch = 5, Root = []\<rparr>\<rparr>"

definition example_duty :: Duty where
  "example_duty =
     \<lparr>Committee = [7, 11, 13], DutyCommitteeIndex = 0, PublicKey = [1], ValidatorIndex = 11\<rparr>"

definition example_validator :: "AttestationHistory \<Rightarrow> validator" where
  "example_validator stored =
     \<lparr>duties = Some [example_duty], emitAccountMetrics = True, attLogs = Map.empty,
      GetAttestationData =
        (\<lambda>n slot committeeIndex. if n = 0 then Inr candidate1 else Inr candidate2),
      ProposeAttestation = (\<lambda>a. Inr \<lparr>AttestationDataRoot = []\<rparr>),
      DomainData = (\<lambda>e. Inr []),
      HashTreeRoot = (\<lambda>d. Inr []),
      Sign = (\<lambda>k r d. Inr [0]),
      HashProto = (\<lambda>d. Inr []),
      LoadAttestationHistory = (\<lambda>n. Inr stored),
      SaveAttestationHistory = (\<lambda>h. None)\<rparr>"

text \<open>The history that the run on \<open>example_history\<close> saves: the vote (3, 4) added.\<close>

definition example_history_saved :: AttestationHistory where
  "example_history_saved =
     \<lparr>TargetToSource =
        [18446744073709551615, 18446744073709551615, 18446744073709551615, 2,
         3, 18446744073709551615, 18446744073709551615, 18446744073709551615],
      LatestEpochWritten = 4\<rparr>"

text \<open>The two attestations the run submits: the validator is second of three in the
  committee.\<close>

definition example_attestation1 :: Attestation where
  "example_attestation1 =
     \<lparr>AggregationBits = [False, True, False], Data = candidate1, Signature = [0]\<rparr>"

definition example_attestation2 :: Attestation where
  "example_attestation2 =
     \<lparr>AggregationBits = [False, True, False], Data = candidate2, Signature = [0]\<rparr>"

declare surrounding_loop.simps [code]
declare surrounded_loop.simps [code]
declare fetch_data2.simps [code]


section \<open>Signed conversions\<close>

declare clear_loop.simps [simp del]

lemma uint_lt63: "(x :: u64) < 2 ^ 63 \<Longrightarrow> uint x < 2 ^ 63"
  by (simp add: word_less_def)

lemma stb63_nonneg: "(0::int) \<le> k \<Longrightarrow> k < 2 ^ 63 \<Longrightarrow> signed_take_bit 63 k = k"
  by (rule signed_take_bit_int_eq_self) simp_all

text \<open>Below \<open>2 ^ 63\<close> the conversion to \<^verbatim>\<open>int\<close> keeps the value.\<close>

lemma go_int_small: "x < 2 ^ 63 \<Longrightarrow> go_int x = uint x"
  unfolding go_int_def sint_uint
  using stb63_nonneg [OF uint_nonnegative uint_lt63, of x] by simp

text \<open>From \<open>2 ^ 63\<close> on it is negative.\<close>

lemma go_int_neg:
  assumes "(2 :: u64) ^ 63 \<le> x"
  shows "go_int x \<le> - 1"
proof -
  have "(2 :: int) ^ 63 \<le> uint x"
    using assms by (simp add: word_le_def)
  then have "signed_take_bit 63 (uint x) \<le> uint x - 2 ^ Suc 63"
    by (rule signed_take_bit_int_less_eq)
  moreover have "uint x < 2 ^ 64"
    using uint_bounded [of x] by simp
  ultimately show ?thesis
    unfolding go_int_def sint_uint by simp
qed

lemma int_sub_exact: "- (2 ^ 63) \<le> a - b \<Longrightarrow> a - b < 2 ^ 63 \<Longrightarrow> int_sub a b = a - b"
  by (simp add: int_sub_def signed_take_bit_int_eq_self)

lemma int_sub_nonneg:
  "0 \<le> a \<Longrightarrow> a < 2 ^ 63 \<Longrightarrow> 0 \<le> b \<Longrightarrow> b < 2 ^ 63 \<Longrightarrow> int_sub a b = a - b"
  by (rule int_sub_exact) simp_all

text \<open>With both operands below \<open>2 ^ 63\<close> the signed difference is the integer one.\<close>

lemma int_sub_small:
  assumes "a < 2 ^ 63" "b < 2 ^ 63"
  shows "int_sub (go_int a) (go_int b) = uint a - uint b"
  unfolding go_int_small [OF assms(1)] go_int_small [OF assms(2)]
  by (rule int_sub_nonneg [OF uint_nonnegative uint_lt63 [OF assms(1)]
        uint_nonnegative uint_lt63 [OF assms(2)]])

text \<open>The wrapped difference of two converted values is the signed reading of the
  difference of the words.\<close>

lemma int_sub_sint: "int_sub (go_int a) (go_int b) = sint (a - b)"
  by (simp add: int_sub_def go_int_def sint_word_diff)

lemma sint_diff_ge_m1:
  fixes l p :: u64
  assumes "uint p - 1 \<le> uint l" and "l < 2 ^ 63"
  shows "- 1 \<le> sint (l - p)"
proof (cases "p \<le> l")
  case True
  then have "uint (l - p) = uint l - uint p"
    by (simp add: uint_sub_lem word_le_def)
  moreover have "uint l < 2 ^ 63" using assms(2) by (rule uint_lt63)
  moreover have "0 \<le> uint p" by simp
  ultimately have "uint (l - p) < 2 ^ 63" by linarith
  then have "l - p < 2 ^ 63" by (simp add: word_less_def)
  then have "sint (l - p) = uint (l - p)"
    using go_int_small [of "l - p"] by (simp add: go_int_def)
  then show ?thesis
    using uint_nonnegative [of "l - p"] by linarith
next
  case False
  then have "uint l < uint p" by (simp add: word_le_def not_le)
  with assms(1) have "uint p = uint l + 1" by simp
  then have "p = l + 1"
    by (metis word_of_int_uint wi_hom_add word_of_int_1 add.commute)
  then show ?thesis by simp
qed

section \<open>Target epochs from \<open>2 ^ 63\<close> on\<close>

text \<open>
  Claim C10. For every history with \<open>period - 1 \<le> latestEpochWritten < 2 ^ 63\<close> and
  every source epoch, \<open>isNewAttSlashable\<close> returns false for every target epoch from
  \<open>2 ^ 63\<close> on, whatever the history holds: the first comparison converts the target to
  a signed 64-bit integer, where it is negative and so not above the (at least \<open>- 1\<close>)
  lower end of the retained window.
\<close>

theorem isNewAttSlashable_huge_target:
  assumes "uint (WeakSubjectivityPeriod cfg) - 1 \<le> uint (LatestEpochWritten history)"
      and "LatestEpochWritten history < 2 ^ 63"
      and "2 ^ 63 \<le> targetEpoch"
  shows "isNewAttSlashable cfg history sourceEpoch targetEpoch = Some (Inr False)"
proof -
  have "go_int targetEpoch \<le> - 1"
    using assms(3) by (rule go_int_neg)
  moreover have "- 1 \<le> int_sub (go_int (LatestEpochWritten history))
                        (go_int (WeakSubjectivityPeriod cfg))"
    unfolding int_sub_sint using assms(1,2) by (rule sint_diff_ge_m1)
  ultimately show ?thesis
    by (simp add: isNewAttSlashable_def)
qed

text \<open>
  The sentinel \<open>2 ^ 64 - 1\<close> itself as the target, on a history of period 4 that holds a
  vote in every slot.
\<close>

theorem isNewAttSlashable_huge_target_witness:
  "uint (WeakSubjectivityPeriod \<lparr>FarFutureEpoch = 18446744073709551615, WeakSubjectivityPeriod = 4\<rparr>) - 1
     \<le> uint (LatestEpochWritten \<lparr>TargetToSource = [0, 0, 1, 2], LatestEpochWritten = 3\<rparr>)
   \<and> LatestEpochWritten \<lparr>TargetToSource = [0, 0, 1, 2], LatestEpochWritten = 3 :: u64\<rparr> < 2 ^ 63
   \<and> (2 :: u64) ^ 63 \<le> 18446744073709551615
   \<and> isNewAttSlashable \<lparr>FarFutureEpoch = 18446744073709551615, WeakSubjectivityPeriod = 4\<rparr>
        \<lparr>TargetToSource = [0, 0, 1, 2], LatestEpochWritten = 3\<rparr> 0 18446744073709551615
      = Some (Inr False)"
  using isNewAttSlashable_huge_target
    [of "\<lparr>FarFutureEpoch = 18446744073709551615, WeakSubjectivityPeriod = 4\<rparr>"
        "\<lparr>TargetToSource = [0, 0, 1, 2], LatestEpochWritten = 3\<rparr>" 18446744073709551615 0]
  by simp

section \<open>The history array\<close>

lemma slot_in_range: "(p :: u64) \<noteq> 0 \<Longrightarrow> unat (i mod p) < unat p"
  by (simp add: unat_mod unat_gt_0)

text \<open>On an array of at least \<open>period\<close> slots the gap-clearing loop does not panic.\<close>

lemma clear_loop_total:
  "WeakSubjectivityPeriod cfg \<noteq> 0 \<Longrightarrow> unat (WeakSubjectivityPeriod cfg) \<le> length tts \<Longrightarrow>
   \<exists>tts'. clear_loop cfg tts i targetEpoch maxToWrite = Inr tts' \<and> length tts' = length tts"
proof (induction cfg tts i targetEpoch maxToWrite rule: clear_loop.induct)
  case (1 cfg tts i targetEpoch maxToWrite)
  let ?p = "WeakSubjectivityPeriod cfg"
  show ?case
  proof (cases "i < targetEpoch \<and> i \<le> maxToWrite")
    case False
    then show ?thesis by (subst clear_loop.simps) auto
  next
    case True
    have "unat (i mod ?p) < unat ?p"
      using "1.prems"(1) by (rule slot_in_range)
    with "1.prems"(2) have lt: "unat (i mod ?p) < length tts" by simp
    let ?tts' = "tts[unat (i mod ?p) := FarFutureEpoch cfg]"
    have w: "write_slot tts i ?p (FarFutureEpoch cfg) = Inr ?tts'"
      using "1.prems"(1) lt by (simp add: write_slot_def)
    from "1.IH" [OF True w "1.prems"(1)] "1.prems"(2)
    obtain tts'' where "clear_loop cfg ?tts' (i + 1) targetEpoch maxToWrite = Inr tts''"
      "length tts'' = length ?tts'" by auto
    with True w show ?thesis
      by (subst clear_loop.simps) simp
  qed
qed

lemma clear_loop_length:
  "clear_loop cfg tts i targetEpoch maxToWrite = Inr tts' \<Longrightarrow> length tts' = length tts"
proof (induction cfg tts i targetEpoch maxToWrite rule: clear_loop.induct)
  case (1 cfg tts i targetEpoch maxToWrite)
  show ?case
  proof (cases "i < targetEpoch \<and> i \<le> maxToWrite")
    case False
    with "1.prems" show ?thesis by (subst (asm) clear_loop.simps) auto
  next
    case True
    from "1.prems" True obtain tts1 where
      w: "write_slot tts i (WeakSubjectivityPeriod cfg) (FarFutureEpoch cfg) = Inr tts1"
      and c: "clear_loop cfg tts1 (i + 1) targetEpoch maxToWrite = Inr tts'"
      by (subst (asm) clear_loop.simps) (auto split: sum.splits)
    from w have "length tts1 = length tts"
      by (auto simp: write_slot_def split: if_splits)
    with "1.IH" [OF True w c] show ?thesis by simp
  qed
qed

text \<open>What a returning \<open>markAttestationForTargetEpoch\<close> does to the watermark, and what
  it leaves in the slot of the target.\<close>

lemma mark_returns:
  assumes "markAttestationForTargetEpoch cfg history sourceEpoch targetEpoch = Inr h'"
  shows "LatestEpochWritten h' =
           (if targetEpoch > LatestEpochWritten history then targetEpoch
            else LatestEpochWritten history)"
    and "WeakSubjectivityPeriod cfg \<noteq> 0"
    and "unat (targetEpoch mod WeakSubjectivityPeriod cfg) < length (TargetToSource h')"
    and "TargetToSource h' ! unat (targetEpoch mod WeakSubjectivityPeriod cfg) = sourceEpoch"
  using assms
  by (auto simp: markAttestationForTargetEpoch_def write_slot_def Let_def
           split: if_splits sum.splits)

lemma mark_length:
  assumes "markAttestationForTargetEpoch cfg history sourceEpoch targetEpoch = Inr h'"
  shows "length (TargetToSource h') = length (TargetToSource history)"
  using assms
  by (auto simp: markAttestationForTargetEpoch_def write_slot_def Let_def
           dest: clear_loop_length split: if_splits sum.splits)

text \<open>With a nonzero period and an array of that length it returns.\<close>

lemma mark_total:
  assumes "WeakSubjectivityPeriod cfg \<noteq> 0"
      and "length (TargetToSource history) = unat (WeakSubjectivityPeriod cfg)"
  shows "\<exists>h'. markAttestationForTargetEpoch cfg history sourceEpoch targetEpoch = Inr h'"
proof -
  let ?p = "WeakSubjectivityPeriod cfg"
  have slot: "\<And>tts. length tts = length (TargetToSource history) \<Longrightarrow>
      \<exists>tts'. write_slot tts targetEpoch ?p sourceEpoch = Inr tts'"
    using assms slot_in_range [OF assms(1), of targetEpoch]
    by (simp add: write_slot_def)
  show ?thesis
  proof (cases "targetEpoch > LatestEpochWritten history")
    case False
    with slot [of "TargetToSource history"] show ?thesis
      by (auto simp: markAttestationForTargetEpoch_def Let_def)
  next
    case True
    from clear_loop_total [OF assms(1), of "TargetToSource history"
        "LatestEpochWritten history + 1" targetEpoch "LatestEpochWritten history + ?p"] assms(2)
    obtain tts where c: "clear_loop cfg (TargetToSource history) (LatestEpochWritten history + 1)
        targetEpoch (LatestEpochWritten history + ?p) = Inr tts"
      and l: "length tts = length (TargetToSource history)" by auto
    from slot [OF l] obtain tts' where "write_slot tts targetEpoch ?p sourceEpoch = Inr tts'" ..
    with True c show ?thesis
      by (simp add: markAttestationForTargetEpoch_def Let_def)
  qed
qed

section \<open>The watermark\<close>

text \<open>
  Claim C9. The history returned by \<open>markAttestationForTargetEpoch\<close> has a
  \<open>latestEpochWritten\<close> that is at least the input's, and equal to it exactly when
  \<open>targetEpoch \<le>\<close> the input's. The call returns whenever the period is not zero and the
  array has the period's length; the only other way out is a panic, which returns no
  history.
\<close>

theorem mark_watermark_monotone:
  "(WeakSubjectivityPeriod cfg \<noteq> 0
      \<and> length (TargetToSource history) = unat (WeakSubjectivityPeriod cfg)
     \<longrightarrow> (\<exists>h'. markAttestationForTargetEpoch cfg history sourceEpoch targetEpoch = Inr h'))
   \<and> (\<forall>h'. markAttestationForTargetEpoch cfg history sourceEpoch targetEpoch = Inr h'
         \<longrightarrow> LatestEpochWritten history \<le> LatestEpochWritten h'
             \<and> (LatestEpochWritten h' = LatestEpochWritten history
                  \<longleftrightarrow> targetEpoch \<le> LatestEpochWritten history))"
proof (intro conjI impI allI)
  assume "WeakSubjectivityPeriod cfg \<noteq> 0
      \<and> length (TargetToSource history) = unat (WeakSubjectivityPeriod cfg)"
  then show "\<exists>h'. markAttestationForTargetEpoch cfg history sourceEpoch targetEpoch = Inr h'"
    using mark_total by blast
next
  fix h'
  assume m: "markAttestationForTargetEpoch cfg history sourceEpoch targetEpoch = Inr h'"
  show "LatestEpochWritten history \<le> LatestEpochWritten h'"
    using mark_returns(1) [OF m] by auto
  show "LatestEpochWritten h' = LatestEpochWritten history
          \<longleftrightarrow> targetEpoch \<le> LatestEpochWritten history"
    using mark_returns(1) [OF m] by auto
qed

text \<open>
  On the example history (watermark 3): a vote for target 5 moves the watermark to 5, a
  vote for target 2 leaves it at 3.
\<close>

theorem mark_watermark_monotone_witness:
  "WeakSubjectivityPeriod example_config \<noteq> 0
   \<and> length (TargetToSource example_history) = unat (WeakSubjectivityPeriod example_config)
   \<and> (\<exists>h'. markAttestationForTargetEpoch example_config example_history 1 5 = Inr h'
         \<and> LatestEpochWritten example_history = 3 \<and> LatestEpochWritten h' = 5)
   \<and> (\<exists>h'. markAttestationForTargetEpoch example_config example_history 1 2 = Inr h'
         \<and> LatestEpochWritten h' = 3)"
proof -
  have p: "WeakSubjectivityPeriod example_config \<noteq> 0"
    by (simp add: example_config_def)
  have len: "length (TargetToSource example_history)
               = unat (WeakSubjectivityPeriod example_config)"
    by (simp add: example_config_def example_history_def)
  have l: "LatestEpochWritten example_history = 3"
    by (simp add: example_history_def)
  from mark_watermark_monotone [of example_config example_history 1 5] p len
  obtain h5 where m5: "markAttestationForTargetEpoch example_config example_history 1 5 = Inr h5"
    by blast
  from mark_watermark_monotone [of example_config example_history 1 5] m5
  have "LatestEpochWritten h5 \<noteq> 3" by (simp add: l)
  with mark_returns(1) [OF m5] have "LatestEpochWritten h5 = 5"
    by (simp add: l split: if_splits)
  moreover
  from mark_watermark_monotone [of example_config example_history 1 2] p len
  obtain h2 where m2: "markAttestationForTargetEpoch example_config example_history 1 2 = Inr h2"
    by blast
  from mark_watermark_monotone [of example_config example_history 1 2] m2
  have "LatestEpochWritten h2 = 3" by (simp add: l)
  ultimately show ?thesis using p len l m5 m2 by blast
qed

section \<open>Reading the window\<close>

text \<open>
  Claim C3 says that \<open>safeTargetToSource\<close> returns the sentinel for every epoch
  \<open>e \<le> latestEpochWritten - period\<close>. The source compares with \<^verbatim>\<open><\<close>, so the epoch
  \<open>latestEpochWritten - period\<close> itself is read from the array, where it shares its slot
  with \<open>latestEpochWritten\<close>. With period 4, watermark 10 and the vote (9, 10) in slot 2,
  the read of epoch \<open>6 = 10 - 4\<close> returns 9, the source recorded for epoch 10.
\<close>

theorem safeTargetToSource_at_window_edge:
  "safeTargetToSource \<lparr>FarFutureEpoch = 18446744073709551615, WeakSubjectivityPeriod = 4\<rparr>
     \<lparr>TargetToSource = [18446744073709551615, 18446744073709551615, 9, 18446744073709551615],
      LatestEpochWritten = 10\<rparr> 6
   = Inr 9"
  by (simp add: safeTargetToSource_def read_slot_def go_int_def int_sub_def)

text \<open>
  What the read costs: on the same history the vote (6, 7) surrounds nothing, and the
  surrounding check, reading epoch 6, takes the vote (9, 10) for one it surrounds.
\<close>

lemma isNewAttSlashable_flags_6_7_at_window_edge:
  "isNewAttSlashable \<lparr>FarFutureEpoch = 18446744073709551615, WeakSubjectivityPeriod = 4\<rparr>
     \<lparr>TargetToSource = [18446744073709551615, 18446744073709551615, 9, 18446744073709551615],
      LatestEpochWritten = 10\<rparr> 6 7
   = Some (Inr True)"
  by code_simp

section \<open>Commit, then read\<close>

text \<open>
  Claim C7, as stated: for every history and every (source, target),
  \<open>markAttestationForTargetEpoch\<close> followed by \<open>safeTargetToSource\<close> for the same target
  returns the committed source. It fails for a target below the window: with period 4
  and watermark 10, committing (1, 3) writes slot 3 and leaves the watermark, and the read
  of epoch 3 is out of the window and returns the sentinel.
\<close>

theorem mark_then_read_below_window:
  "markAttestationForTargetEpoch
     \<lparr>FarFutureEpoch = 18446744073709551615, WeakSubjectivityPeriod = 4\<rparr>
     \<lparr>TargetToSource = [18446744073709551615, 18446744073709551615, 9, 18446744073709551615],
      LatestEpochWritten = 10\<rparr> 1 3
     = Inr \<lparr>TargetToSource = [18446744073709551615, 18446744073709551615, 9, 1],
            LatestEpochWritten = 10\<rparr>
   \<and> safeTargetToSource \<lparr>FarFutureEpoch = 18446744073709551615, WeakSubjectivityPeriod = 4\<rparr>
        \<lparr>TargetToSource = [18446744073709551615, 18446744073709551615, 9, 1],
         LatestEpochWritten = 10\<rparr> 3
     = Inr 18446744073709551615"
  by (simp add: markAttestationForTargetEpoch_def write_slot_def safeTargetToSource_def
        go_int_def int_sub_def)

text \<open>
  Claim C7, amended: for a nonzero period below \<open>2 ^ 63\<close>, an array of the period's
  length, a watermark and a target below \<open>2 ^ 63\<close>, and a target above
  \<open>latestEpochWritten - period\<close> (inside the retained window, or ahead of the watermark),
  \<open>markAttestationForTargetEpoch\<close> returns a history on which \<open>safeTargetToSource\<close> for
  the same target returns the committed source. The target \<open>latestEpochWritten - period\<close>
  itself is left out: it is the epoch of claim C3.
\<close>

theorem mark_then_read:
  assumes p0: "WeakSubjectivityPeriod cfg \<noteq> 0"
      and len: "length (TargetToSource history) = unat (WeakSubjectivityPeriod cfg)"
      and l: "LatestEpochWritten history < 2 ^ 63"
      and t: "targetEpoch < 2 ^ 63"
      and p: "WeakSubjectivityPeriod cfg < 2 ^ 63"
      and win: "uint (LatestEpochWritten history) - uint (WeakSubjectivityPeriod cfg)
                  < uint targetEpoch"
  shows "\<exists>h'. markAttestationForTargetEpoch cfg history sourceEpoch targetEpoch = Inr h'
           \<and> safeTargetToSource cfg h' targetEpoch = Inr sourceEpoch"
proof -
  let ?p = "WeakSubjectivityPeriod cfg"
  from mark_total [OF p0 len] obtain h' where
    m: "markAttestationForTargetEpoch cfg history sourceEpoch targetEpoch = Inr h'" ..
  note r = mark_returns [OF m]
  have l': "LatestEpochWritten h' < 2 ^ 63"
    using r(1) l t by (simp split: if_splits)
  have gi: "go_int targetEpoch = uint targetEpoch"
    using t by (rule go_int_small)
  have sub: "int_sub (go_int (LatestEpochWritten h')) (go_int ?p)
               = uint (LatestEpochWritten h') - uint ?p"
    using l' p by (rule int_sub_small)
  have le: "targetEpoch \<le> LatestEpochWritten h'"
    using r(1) by (auto simp: not_less)
  have "uint (LatestEpochWritten h') - uint ?p \<le> uint targetEpoch"
  proof (cases "targetEpoch > LatestEpochWritten history")
    case True
    with r(1) have "LatestEpochWritten h' = targetEpoch" by simp
    then show ?thesis by simp
  next
    case False
    with r(1) win show ?thesis by simp
  qed
  moreover have "\<not> LatestEpochWritten h' < targetEpoch"
    using le by (simp add: not_less)
  ultimately have "safeTargetToSource cfg h' targetEpoch = Inr sourceEpoch"
    using r(2,3,4) by (simp add: safeTargetToSource_def gi sub read_slot_def)
  with m show ?thesis by blast
qed

text \<open>On the example history (period 8, watermark 3), the vote (3, 4).\<close>

theorem mark_then_read_witness:
  "\<exists>h'. markAttestationForTargetEpoch example_config example_history 3 4 = Inr h'
      \<and> safeTargetToSource example_config h' 4 = Inr 3"
proof (rule mark_then_read)
  show "WeakSubjectivityPeriod example_config \<noteq> 0"
    by (simp add: example_config_def)
  show "length (TargetToSource example_history) = unat (WeakSubjectivityPeriod example_config)"
    by (simp add: example_config_def example_history_def)
  show "LatestEpochWritten example_history < 2 ^ 63"
    by (simp add: example_history_def)
  show "(4 :: u64) < 2 ^ 63" by simp
  show "WeakSubjectivityPeriod example_config < 2 ^ 63"
    by (simp add: example_config_def)
  show "uint (LatestEpochWritten example_history) - uint (WeakSubjectivityPeriod example_config)
          < uint (4 :: u64)"
    by (simp add: example_config_def example_history_def)
qed

section \<open>Clearing the gap\<close>

text \<open>
  Claim C8, as stated: with period 4 and watermark 3, committing target 10 resets the
  slots of epochs 4 to 7 and leaves the slots holding epoch 3 and every earlier epoch
  unchanged. Epoch 7 shares slot 3 with epoch 3, so the slot that held epoch 3 is reset:
  here slot 3 goes from 2 to the sentinel.
\<close>

theorem mark_gap_clear_resets_slot_of_epoch_3:
  "markAttestationForTargetEpoch
     \<lparr>FarFutureEpoch = 18446744073709551615, WeakSubjectivityPeriod = 4\<rparr>
     \<lparr>TargetToSource = [18446744073709551615, 0, 1, 2], LatestEpochWritten = 3\<rparr> 9 10
     = Inr \<lparr>TargetToSource = [18446744073709551615, 18446744073709551615, 9,
                               18446744073709551615],
            LatestEpochWritten = 10\<rparr>
   \<and> unat ((3 :: u64) mod 4) = 3
   \<and> [18446744073709551615, 0, 1, 2 :: u64] ! 3 = 2
   \<and> [18446744073709551615, 18446744073709551615, 9, 18446744073709551615 :: u64] ! 3
       = 18446744073709551615"
  by (simp add: markAttestationForTargetEpoch_def clear_loop.simps write_slot_def)

text \<open>
  Claim C8, amended: with period 4 and a history of four slots whose watermark is 3,
  \<open>markAttestationForTargetEpoch\<close> with target 10 resets the slots of epochs 4 to 7 to the
  sentinel and scans no further; these are all four slots, the one that held epoch 3
  among them. It then sets the watermark to 10 and writes the source into slot
  \<open>10 mod 4 = 2\<close>.
\<close>

theorem mark_gap_clear_period4:
  assumes "WeakSubjectivityPeriod cfg = 4"
      and "LatestEpochWritten history = 3"
      and "length (TargetToSource history) = 4"
  shows "markAttestationForTargetEpoch cfg history sourceEpoch 10
           = Inr \<lparr>TargetToSource =
                    [FarFutureEpoch cfg, FarFutureEpoch cfg, sourceEpoch, FarFutureEpoch cfg],
                  LatestEpochWritten = 10\<rparr>"
proof -
  from assms(3) obtain a b c d where tts: "TargetToSource history = [a, b, c, d]"
    by (auto simp: length_Suc_conv numeral_eq_Suc)
  have h: "history = \<lparr>TargetToSource = [a, b, c, d], LatestEpochWritten = 3\<rparr>"
    using tts assms(2) by (cases history) simp
  show ?thesis
    unfolding h
    by (simp add: markAttestationForTargetEpoch_def clear_loop.simps write_slot_def assms(1))
qed

theorem mark_gap_clear_period4_witness:
  "markAttestationForTargetEpoch
     \<lparr>FarFutureEpoch = 18446744073709551615, WeakSubjectivityPeriod = 4\<rparr>
     \<lparr>TargetToSource = [5, 0, 1, 2], LatestEpochWritten = 3\<rparr> 9 10
   = Inr \<lparr>TargetToSource = [18446744073709551615, 18446744073709551615, 9,
                             18446744073709551615],
          LatestEpochWritten = 10\<rparr>"
  using mark_gap_clear_period4
    [of "\<lparr>FarFutureEpoch = 18446744073709551615, WeakSubjectivityPeriod = 4\<rparr>"
        "\<lparr>TargetToSource = [5, 0, 1, 2], LatestEpochWritten = 3\<rparr>" 9]
  by simp

section \<open>Double votes\<close>

text \<open>A vote recorded for the target inside the window is found by the double-vote
  check, before either loop runs.\<close>

lemma double_vote_flagged:
  assumes l: "LatestEpochWritten history < 2 ^ 63"
      and p: "WeakSubjectivityPeriod cfg < 2 ^ 63"
      and tl: "targetEpoch \<le> LatestEpochWritten history"
      and win: "uint (LatestEpochWritten history) - uint (WeakSubjectivityPeriod cfg)
                  < uint targetEpoch"
      and len: "unat (targetEpoch mod WeakSubjectivityPeriod cfg)
                  < length (TargetToSource history)"
      and s: "TargetToSource history ! unat (targetEpoch mod WeakSubjectivityPeriod cfg)
                \<noteq> FarFutureEpoch cfg"
  shows "isNewAttSlashable cfg history sourceEpoch targetEpoch = Some (Inr True)"
proof -
  let ?l = "LatestEpochWritten history" and ?p = "WeakSubjectivityPeriod cfg"
  have t: "targetEpoch < 2 ^ 63"
    using tl l by (rule le_less_trans)
  have gi: "go_int targetEpoch = uint targetEpoch"
    using t by (rule go_int_small)
  have sub: "int_sub (go_int ?l) (go_int ?p) = uint ?l - uint ?p"
    using l p by (rule int_sub_small)
  have "uint targetEpoch \<le> uint ?l"
    using tl by (simp add: word_le_def)
  with win have "0 < uint ?p" by linarith
  then have p0: "?p \<noteq> 0" by auto
  have nlt: "\<not> ?l < targetEpoch"
    using tl by (simp add: not_less)
  have "safeTargetToSource cfg history targetEpoch
          = Inr (TargetToSource history ! unat (targetEpoch mod ?p))"
    using nlt win p0 len by (simp add: safeTargetToSource_def gi sub read_slot_def)
  with win s show ?thesis
    by (simp add: isNewAttSlashable_def gi sub not_le)
qed

text \<open>
  Claim C4, as stated: for every history with \<open>targetToSource[t mod period] = s\<close>, \<open>s\<close>
  not the sentinel, and \<open>latestEpochWritten \<ge> t > latestEpochWritten - period\<close>,
  \<open>isNewAttSlashable\<close> returns true for \<open>t\<close>. It fails where the conversion to a signed
  integer changes the value: with watermark and target \<open>2 ^ 63\<close>, period 4 and the vote
  in slot \<open>2 ^ 63 mod 4 = 0\<close>, the target converts to \<open>- 2 ^ 63\<close>, the first comparison
  takes it for pruned and the result is false.
\<close>

theorem isNewAttSlashable_double_vote_at_2p63:
  "TargetToSource
      \<lparr>TargetToSource = [5, 18446744073709551615, 18446744073709551615, 18446744073709551615],
       LatestEpochWritten = 9223372036854775808\<rparr>
      ! unat ((9223372036854775808 :: u64) mod 4) = 5
   \<and> (5 :: u64) \<noteq> 18446744073709551615
   \<and> (9223372036854775808 :: u64) \<le> 9223372036854775808
   \<and> uint (9223372036854775808 :: u64) - uint (4 :: u64) < uint (9223372036854775808 :: u64)
   \<and> isNewAttSlashable \<lparr>FarFutureEpoch = 18446744073709551615, WeakSubjectivityPeriod = 4\<rparr>
        \<lparr>TargetToSource = [5, 18446744073709551615, 18446744073709551615,
                            18446744073709551615],
         LatestEpochWritten = 9223372036854775808\<rparr> 6 9223372036854775808
      = Some (Inr False)"
  by (simp add: isNewAttSlashable_def go_int_def int_sub_def)

text \<open>
  Claim C4, amended: for every history with watermark and period below \<open>2 ^ 63\<close>, with
  \<open>targetToSource[t mod period] = s\<close>, \<open>s\<close> not the sentinel, and
  \<open>latestEpochWritten \<ge> t > latestEpochWritten - period\<close>, and for every candidate source
  epoch, \<open>isNewAttSlashable\<close> returns true for \<open>t\<close>.
\<close>

theorem isNewAttSlashable_double_vote:
  assumes "LatestEpochWritten history < 2 ^ 63"
      and "WeakSubjectivityPeriod cfg < 2 ^ 63"
      and "targetEpoch \<le> LatestEpochWritten history"
      and "uint (LatestEpochWritten history) - uint (WeakSubjectivityPeriod cfg)
             < uint targetEpoch"
      and "unat (targetEpoch mod WeakSubjectivityPeriod cfg) < length (TargetToSource history)"
      and "TargetToSource history ! unat (targetEpoch mod WeakSubjectivityPeriod cfg) = s"
      and "s \<noteq> FarFutureEpoch cfg"
  shows "isNewAttSlashable cfg history anySource targetEpoch = Some (Inr True)"
  using assms by (intro double_vote_flagged) simp_all

text \<open>On the example history: the recorded vote (2, 3) against a second vote (3, 3).\<close>

theorem isNewAttSlashable_double_vote_witness:
  "isNewAttSlashable example_config example_history 3 3 = Some (Inr True)"
proof (rule isNewAttSlashable_double_vote [where s = 2])
  show "LatestEpochWritten example_history < 2 ^ 63"
    by (simp add: example_history_def)
  show "WeakSubjectivityPeriod example_config < 2 ^ 63"
    by (simp add: example_config_def)
  show "3 \<le> LatestEpochWritten example_history"
    by (simp add: example_history_def)
  show "uint (LatestEpochWritten example_history) - uint (WeakSubjectivityPeriod example_config)
          < uint (3 :: u64)"
    by (simp add: example_config_def example_history_def)
  show "unat (3 mod WeakSubjectivityPeriod example_config)
          < length (TargetToSource example_history)"
    by (simp add: example_config_def example_history_def)
  show "TargetToSource example_history ! unat (3 mod WeakSubjectivityPeriod example_config) = 2"
    by (simp add: example_config_def example_history_def)
  show "2 \<noteq> FarFutureEpoch example_config"
    by (simp add: example_config_def)
qed

section \<open>Two commits, then a vote for the first target\<close>

lemma nat_mod_succ_differ: "2 \<le> (n::nat) \<Longrightarrow> k mod n \<noteq> Suc k mod n"
  by (simp add: mod_Suc)

lemma slots_9_10_differ:
  fixes p :: u64
  assumes "2 \<le> p"
  shows "unat (9 mod p) \<noteq> unat (10 mod p)"
proof -
  have "2 \<le> unat p"
    using assms by (simp add: word_le_nat_alt)
  then have "9 mod unat p \<noteq> Suc 9 mod unat p"
    by (rule nat_mod_succ_differ)
  then show ?thesis
    by (simp add: unat_mod)
qed

text \<open>
  Claim C5, as stated: from an empty history, after committing (2, 9) and then (5, 10),
  \<open>isNewAttSlashable\<close> returns false for (6, 9) and true for (1, 9). With period 16 the
  two commits leave 2 in slot 9 and 5 in slot 10, and the call for (6, 9) returns true:
  the double-vote check finds the vote for target 9.
\<close>

theorem isNewAttSlashable_6_9_after_two_commits:
  "markAttestationForTargetEpoch
     \<lparr>FarFutureEpoch = 18446744073709551615, WeakSubjectivityPeriod = 16\<rparr>
     \<lparr>TargetToSource = replicate 16 18446744073709551615, LatestEpochWritten = 0\<rparr> 2 9
     = Inr \<lparr>TargetToSource = (replicate 16 18446744073709551615)[9 := 2],
            LatestEpochWritten = 9\<rparr>
   \<and> markAttestationForTargetEpoch
       \<lparr>FarFutureEpoch = 18446744073709551615, WeakSubjectivityPeriod = 16\<rparr>
       \<lparr>TargetToSource = (replicate 16 18446744073709551615)[9 := 2],
        LatestEpochWritten = 9\<rparr> 5 10
     = Inr \<lparr>TargetToSource = (replicate 16 18446744073709551615)[9 := 2, 10 := 5],
            LatestEpochWritten = 10\<rparr>
   \<and> isNewAttSlashable \<lparr>FarFutureEpoch = 18446744073709551615, WeakSubjectivityPeriod = 16\<rparr>
       \<lparr>TargetToSource = (replicate 16 18446744073709551615)[9 := 2, 10 := 5],
        LatestEpochWritten = 10\<rparr> 6 9
     = Some (Inr True)"
  by code_simp

text \<open>
  Claim C5, amended: for every period from 2 to below \<open>2 ^ 63\<close> and every sentinel other
  than 2, starting from the empty history (every slot the sentinel, watermark 0), after
  committing (2, 9) and then (5, 10) via \<open>markAttestationForTargetEpoch\<close>,
  \<open>isNewAttSlashable\<close> returns true for (6, 9) and true for (1, 9): either is a second vote
  for target 9.
\<close>

theorem isNewAttSlashable_after_two_commits:
  assumes p2: "2 \<le> WeakSubjectivityPeriod cfg"
      and p: "WeakSubjectivityPeriod cfg < 2 ^ 63"
      and far: "FarFutureEpoch cfg \<noteq> 2"
      and empty: "TargetToSource h0
                    = replicate (unat (WeakSubjectivityPeriod cfg)) (FarFutureEpoch cfg)"
      and l0: "LatestEpochWritten h0 = 0"
  shows "\<exists>h1 h2. markAttestationForTargetEpoch cfg h0 2 9 = Inr h1
           \<and> markAttestationForTargetEpoch cfg h1 5 10 = Inr h2
           \<and> isNewAttSlashable cfg h2 6 9 = Some (Inr True)
           \<and> isNewAttSlashable cfg h2 1 9 = Some (Inr True)"
proof -
  let ?p = "WeakSubjectivityPeriod cfg"
  have p0: "?p \<noteq> 0" using p2 by auto
  have len0: "length (TargetToSource h0) = unat ?p" using empty by simp
  from mark_total [OF p0 len0] obtain h1 where
    m1: "markAttestationForTargetEpoch cfg h0 2 9 = Inr h1" ..
  have len1: "length (TargetToSource h1) = unat ?p"
    using mark_length [OF m1] len0 by simp
  have l1: "LatestEpochWritten h1 = 9"
    using mark_returns(1) [OF m1] l0 by simp
  have s1: "TargetToSource h1 ! unat (9 mod ?p) = 2"
    using mark_returns(4) [OF m1] .
  from mark_total [OF p0 len1] obtain h2 where
    m2: "markAttestationForTargetEpoch cfg h1 5 10 = Inr h2" ..
  have len2: "length (TargetToSource h2) = unat ?p"
    using mark_length [OF m2] len1 by simp
  have l2: "LatestEpochWritten h2 = 10"
    using mark_returns(1) [OF m2] l1 by simp
  have "TargetToSource h2 = (TargetToSource h1)[unat (10 mod ?p) := 5]"
    using m2 l1
    by (auto simp: markAttestationForTargetEpoch_def Let_def clear_loop.simps write_slot_def
             split: if_splits)
  then have s2: "TargetToSource h2 ! unat (9 mod ?p) = 2"
    using slots_9_10_differ [OF p2] s1 by simp
  have in_range: "unat (9 mod ?p) < length (TargetToSource h2)"
    using slot_in_range [OF p0, of 9] len2 by simp
  have "2 \<le> uint ?p"
    using p2 by (simp add: word_le_def)
  then have win: "uint (LatestEpochWritten h2) - uint ?p < uint (9 :: u64)"
    by (simp add: l2)
  have flagged: "isNewAttSlashable cfg h2 s 9 = Some (Inr True)" for s
  proof (rule double_vote_flagged)
    show "LatestEpochWritten h2 < 2 ^ 63" by (simp add: l2)
    show "?p < 2 ^ 63" by (rule p)
    show "9 \<le> LatestEpochWritten h2" by (simp add: l2)
    show "uint (LatestEpochWritten h2) - uint ?p < uint (9 :: u64)" by (rule win)
    show "unat (9 mod ?p) < length (TargetToSource h2)" by (rule in_range)
    show "TargetToSource h2 ! unat (9 mod ?p) \<noteq> FarFutureEpoch cfg"
      using s2 far by simp
  qed
  from m1 m2 flagged [of 6] flagged [of 1] show ?thesis by blast
qed

text \<open>With the period and the sentinel of the example configuration.\<close>

theorem isNewAttSlashable_after_two_commits_witness:
  "\<exists>h1 h2.
     markAttestationForTargetEpoch example_config
       \<lparr>TargetToSource = replicate 8 18446744073709551615, LatestEpochWritten = 0\<rparr> 2 9 = Inr h1
     \<and> markAttestationForTargetEpoch example_config h1 5 10 = Inr h2
     \<and> isNewAttSlashable example_config h2 6 9 = Some (Inr True)
     \<and> isNewAttSlashable example_config h2 1 9 = Some (Inr True)"
proof (rule isNewAttSlashable_after_two_commits)
  show "2 \<le> WeakSubjectivityPeriod example_config"
    by (simp add: example_config_def)
  show "WeakSubjectivityPeriod example_config < 2 ^ 63"
    by (simp add: example_config_def)
  show "FarFutureEpoch example_config \<noteq> 2"
    by (simp add: example_config_def)
  show "TargetToSource \<lparr>TargetToSource = replicate 8 18446744073709551615,
                        LatestEpochWritten = 0\<rparr>
          = replicate (unat (WeakSubjectivityPeriod example_config))
              (FarFutureEpoch example_config)"
    by (simp add: example_config_def)
  show "LatestEpochWritten \<lparr>TargetToSource = replicate 8 18446744073709551615,
                            LatestEpochWritten = 0 :: u64\<rparr> = 0"
    by simp
qed

section \<open>The example run\<close>

lemmas phase_defs = SubmitAttestation_def protect_phase_def sign_phase_def submit_phase_def
  commit_phase_def log_phase_def failed_def

text \<open>The stored history allows the first candidate and rejects the second.\<close>

lemma example_first_candidate_allowed:
  "isNewAttSlashable example_config example_history 3 4 = Some (Inr False)"
  by code_simp

lemma example_second_candidate_slashable:
  "isNewAttSlashable example_config example_history 1 5 = Some (Inr True)"
  by code_simp

lemma example_fetch:
  "duty (example_validator stored) [1] = Inr example_duty"
  "GetAttestationData (example_validator stored) 0 160 0 = Inr candidate1"
  "fetch_data2 (example_validator stored) 160 0 candidate1 candidate1 1 = Some (Inr candidate2)"
  by (simp_all add: duty_def example_validator_def example_duty_def fetch_data2.simps
        candidate1_def candidate2_def)

lemma example_committee_index: "DutyCommitteeIndex example_duty = 0"
  by (simp add: example_duty_def)

text \<open>The whole run: both candidates are signed and submitted, the first is committed.\<close>

lemma example_run:
  "trace (SubmitAttestation example_config \<lparr>ProtectAttester = True\<rparr>
     (example_validator example_history) 160 [1])
   = [LoadHistory, ConsultSlashable 3 4, SignCall candidate1, SignCall candidate2,
      ProposeCall example_attestation1, ProposeCall example_attestation2,
      LoadHistory, SaveHistory example_history_saved, IncSuccess]"
  by code_simp

section \<open>The check before signing\<close>

text \<open>
  Claim C1, as stated: with slashing protection enabled, if \<open>isNewAttSlashable\<close> returns
  true for either of the two fetched candidates, nothing is signed and nothing is
  submitted. In the example run protection is enabled, the second fetched candidate
  (source 1, target 5) is slashable against the stored history, and both candidates are
  signed and submitted all the same: the source checks \<open>data1\<close> only.
\<close>

theorem SubmitAttestation_second_candidate_slashable_yet_signed:
  "ProtectAttester \<lparr>ProtectAttester = True\<rparr>
   \<and> fetch_data2 (example_validator example_history) 160 0 candidate1 candidate1 1
       = Some (Inr candidate2)
   \<and> LoadAttestationHistory (example_validator example_history) 0 = Inr example_history
   \<and> isNewAttSlashable example_config example_history
        (Epoch (Source candidate2)) (Epoch (Target candidate2)) = Some (Inr True)
   \<and> trace (SubmitAttestation example_config \<lparr>ProtectAttester = True\<rparr>
        (example_validator example_history) 160 [1])
      = [LoadHistory, ConsultSlashable 3 4, SignCall candidate1, SignCall candidate2,
         ProposeCall example_attestation1, ProposeCall example_attestation2,
         LoadHistory, SaveHistory example_history_saved, IncSuccess]"
proof (intro conjI)
  show "ProtectAttester \<lparr>ProtectAttester = True\<rparr>" by simp
  show "fetch_data2 (example_validator example_history) 160 0 candidate1 candidate1 1
          = Some (Inr candidate2)"
    by (rule example_fetch)
  show "LoadAttestationHistory (example_validator example_history) 0 = Inr example_history"
    by (simp add: example_validator_def)
  show "isNewAttSlashable example_config example_history
          (Epoch (Source candidate2)) (Epoch (Target candidate2)) = Some (Inr True)"
    using example_second_candidate_slashable by (simp add: candidate2_def)
  show "trace (SubmitAttestation example_config \<lparr>ProtectAttester = True\<rparr>
          (example_validator example_history) 160 [1])
        = [LoadHistory, ConsultSlashable 3 4, SignCall candidate1, SignCall candidate2,
           ProposeCall example_attestation1, ProposeCall example_attestation2,
           LoadHistory, SaveHistory example_history_saved, IncSuccess]"
    by (rule example_run)
qed

text \<open>
  Claim C1, amended: with slashing protection enabled, if \<open>isNewAttSlashable\<close> returns
  true for the first fetched candidate's (sourceEpoch, targetEpoch), the whole attempt is
  aborted and no signing call and no submission call is made for either candidate: after
  the load and the check the call only counts the failure and returns. The second
  candidate is not checked.
\<close>

theorem SubmitAttestation_aborts_on_slashable_first_candidate:
  assumes "ProtectAttester flags"
      and "duty v pubKey = Inr d"
      and "GetAttestationData v 0 slot (DutyCommitteeIndex d) = Inr data1"
      and "fetch_data2 v slot (DutyCommitteeIndex d) data1 data1 1 = Some (Inr data2)"
      and "LoadAttestationHistory v 0 = Inr history"
      and "isNewAttSlashable cfg history (Epoch (Source data1)) (Epoch (Target data1))
             = Some (Inr True)"
  shows "trace (SubmitAttestation cfg flags v slot pubKey)
           = [LoadHistory, ConsultSlashable (Epoch (Source data1)) (Epoch (Target data1))]
               @ (if emitAccountMetrics v then [IncFail] else [])
         \<and> ending (SubmitAttestation cfg flags v slot pubKey) = Returned"
  using assms by (simp add: SubmitAttestation_def protect_phase_def failed_def)

text \<open>
  The example validator once more, now on the history its first run saved: the first
  candidate (3, 4) is a second vote for target 4.
\<close>

theorem SubmitAttestation_aborts_on_slashable_first_candidate_witness:
  "trace (SubmitAttestation example_config \<lparr>ProtectAttester = True\<rparr>
       (example_validator example_history_saved) 160 [1])
     = [LoadHistory, ConsultSlashable 3 4, IncFail]
   \<and> ending (SubmitAttestation example_config \<lparr>ProtectAttester = True\<rparr>
       (example_validator example_history_saved) 160 [1]) = Returned"
proof -
  have 1: "ProtectAttester \<lparr>ProtectAttester = True\<rparr>" by simp
  have 2: "GetAttestationData (example_validator example_history_saved) 0 160
             (DutyCommitteeIndex example_duty) = Inr candidate1"
    unfolding example_committee_index by (rule example_fetch)
  have 3: "fetch_data2 (example_validator example_history_saved) 160
             (DutyCommitteeIndex example_duty) candidate1 candidate1 1 = Some (Inr candidate2)"
    unfolding example_committee_index by (rule example_fetch)
  have 4: "LoadAttestationHistory (example_validator example_history_saved) 0
             = Inr example_history_saved"
    by (simp add: example_validator_def)
  have 5: "isNewAttSlashable example_config example_history_saved
             (Epoch (Source candidate1)) (Epoch (Target candidate1)) = Some (Inr True)"
    by code_simp
  from SubmitAttestation_aborts_on_slashable_first_candidate [OF 1 example_fetch(1) 2 3 4 5]
  show ?thesis
    by (simp add: candidate1_def example_validator_def)
qed

section \<open>The order of check, submission and save\<close>

text \<open>
  Claim C2, as stated: with protection enabled the history is saved only after the
  submissions have succeeded, and no vote is submitted without being checked. In the
  example run the second attestation, for the vote (1, 5) that \<open>isNewAttSlashable\<close>
  rejects, is submitted, and \<open>isNewAttSlashable\<close> was never called on (1, 5): the only call
  is on (3, 4).
\<close>

theorem SubmitAttestation_second_vote_submitted_unchecked:
  "ProposeCall example_attestation2
     \<in> set (trace (SubmitAttestation example_config \<lparr>ProtectAttester = True\<rparr>
               (example_validator example_history) 160 [1]))
   \<and> Epoch (Source (Data example_attestation2)) = 1
   \<and> Epoch (Target (Data example_attestation2)) = 5
   \<and> ConsultSlashable 1 5
     \<notin> set (trace (SubmitAttestation example_config \<lparr>ProtectAttester = True\<rparr>
               (example_validator example_history) 160 [1]))
   \<and> isNewAttSlashable example_config example_history 1 5 = Some (Inr True)"
  using example_second_candidate_slashable
  by (simp add: example_run example_attestation2_def candidate2_def)

text \<open>
  Claim C2, amended: in every execution of \<open>SubmitAttestation\<close> with slashing protection
  enabled, the history store's save is invoked only after both attestations have been
  submitted and accepted, and what it saves is the reloaded history with the first
  candidate's vote committed (a vote that was submitted); and no attestation is submitted
  unless \<open>isNewAttSlashable\<close> was consulted earlier in that same execution on the first
  candidate's epochs and returned false. The second candidate is submitted without a
  check of its own.

  The trace lists the calls in order, so the two parts read: a trace with a save starts
  with load, check, two signings, two accepted submissions, reload, save; a trace with a
  submission starts with load, check (answered false), two signings, submission.
\<close>

theorem SubmitAttestation_save_after_submit_check_before_submit:
  assumes "ProtectAttester flags"
  shows "(\<forall>h. SaveHistory h \<in> set (trace (SubmitAttestation cfg flags v slot pubKey)) \<longrightarrow>
          (\<exists>data1 data2 a1 a2 resp1 resp2 reloaded rest.
              trace (SubmitAttestation cfg flags v slot pubKey)
                = [LoadHistory, ConsultSlashable (Epoch (Source data1)) (Epoch (Target data1)),
                   SignCall data1, SignCall data2, ProposeCall a1, ProposeCall a2,
                   LoadHistory, SaveHistory h] @ rest
              \<and> Data a1 = data1 \<and> Data a2 = data2
              \<and> ProposeAttestation v a1 = Inr resp1 \<and> ProposeAttestation v a2 = Inr resp2
              \<and> LoadAttestationHistory v 1 = Inr reloaded
              \<and> markAttestationForTargetEpoch cfg reloaded
                    (Epoch (Source data1)) (Epoch (Target data1)) = Inr h))
       \<and> (\<forall>a. ProposeCall a \<in> set (trace (SubmitAttestation cfg flags v slot pubKey)) \<longrightarrow>
          (\<exists>data1 data2 a1 loaded rest.
              trace (SubmitAttestation cfg flags v slot pubKey)
                = [LoadHistory, ConsultSlashable (Epoch (Source data1)) (Epoch (Target data1)),
                   SignCall data1, SignCall data2, ProposeCall a1] @ rest
              \<and> Data a1 = data1
              \<and> LoadAttestationHistory v 0 = Inr loaded
              \<and> isNewAttSlashable cfg loaded
                    (Epoch (Source data1)) (Epoch (Target data1)) = Some (Inr False)))"
  using assms
  by (auto simp: phase_defs Let_def split: option.splits sum.splits bool.splits if_splits)

text \<open>The example run has a save and two submissions; the theorem gives its shape.\<close>

theorem SubmitAttestation_save_after_submit_check_before_submit_witness:
  "ProtectAttester \<lparr>ProtectAttester = True\<rparr>
   \<and> SaveHistory example_history_saved
       \<in> set (trace (SubmitAttestation example_config \<lparr>ProtectAttester = True\<rparr>
                 (example_validator example_history) 160 [1]))
   \<and> ProposeCall example_attestation2
       \<in> set (trace (SubmitAttestation example_config \<lparr>ProtectAttester = True\<rparr>
                 (example_validator example_history) 160 [1]))
   \<and> (\<exists>data1 data2 a1 a2 resp1 resp2 reloaded rest.
          trace (SubmitAttestation example_config \<lparr>ProtectAttester = True\<rparr>
                  (example_validator example_history) 160 [1])
            = [LoadHistory, ConsultSlashable (Epoch (Source data1)) (Epoch (Target data1)),
               SignCall data1, SignCall data2, ProposeCall a1, ProposeCall a2,
               LoadHistory, SaveHistory example_history_saved] @ rest
          \<and> Data a1 = data1 \<and> Data a2 = data2
          \<and> ProposeAttestation (example_validator example_history) a1 = Inr resp1
          \<and> ProposeAttestation (example_validator example_history) a2 = Inr resp2
          \<and> LoadAttestationHistory (example_validator example_history) 1 = Inr reloaded
          \<and> markAttestationForTargetEpoch example_config reloaded
                (Epoch (Source data1)) (Epoch (Target data1)) = Inr example_history_saved)
   \<and> (\<exists>data1 data2 a1 loaded rest.
          trace (SubmitAttestation example_config \<lparr>ProtectAttester = True\<rparr>
                  (example_validator example_history) 160 [1])
            = [LoadHistory, ConsultSlashable (Epoch (Source data1)) (Epoch (Target data1)),
               SignCall data1, SignCall data2, ProposeCall a1] @ rest
          \<and> Data a1 = data1
          \<and> LoadAttestationHistory (example_validator example_history) 0 = Inr loaded
          \<and> isNewAttSlashable example_config loaded
                (Epoch (Source data1)) (Epoch (Target data1)) = Some (Inr False))"
proof -
  have p: "ProtectAttester \<lparr>ProtectAttester = True\<rparr>" by simp
  have s: "SaveHistory example_history_saved
       \<in> set (trace (SubmitAttestation example_config \<lparr>ProtectAttester = True\<rparr>
                 (example_validator example_history) 160 [1]))"
    by (simp add: example_run)
  have a: "ProposeCall example_attestation2
       \<in> set (trace (SubmitAttestation example_config \<lparr>ProtectAttester = True\<rparr>
                 (example_validator example_history) 160 [1]))"
    by (simp add: example_run)
  note shape = SubmitAttestation_save_after_submit_check_before_submit
         [OF p, of example_config "example_validator example_history" 160 "[1]"]
  note saved = shape [THEN conjunct1, rule_format, OF s]
  note submitted = shape [THEN conjunct2, rule_format, OF a]
  show ?thesis
    by (intro conjI) (rule p s a saved submitted)+
qed

section \<open>The commit\<close>

text \<open>
  Claim C6, as stated: after both attestations are accepted, the reloaded history is
  updated by the commit for each of the two accepted candidates before it is persisted.
  In the example run both are accepted, and the history saved is the reloaded one with
  the first vote (3, 4) only; committing the second vote (1, 5) as well, in either order,
  gives another history.
\<close>

theorem SubmitAttestation_second_vote_not_committed:
  "trace (SubmitAttestation example_config \<lparr>ProtectAttester = True\<rparr>
       (example_validator example_history) 160 [1])
     = [LoadHistory, ConsultSlashable 3 4, SignCall candidate1, SignCall candidate2,
        ProposeCall example_attestation1, ProposeCall example_attestation2,
        LoadHistory, SaveHistory example_history_saved, IncSuccess]
   \<and> LoadAttestationHistory (example_validator example_history) 1 = Inr example_history
   \<and> markAttestationForTargetEpoch example_config example_history 3 4
       = Inr example_history_saved
   \<and> markAttestationForTargetEpoch example_config example_history_saved 1 5
       = Inr \<lparr>TargetToSource =
                [18446744073709551615, 18446744073709551615, 18446744073709551615, 2,
                 3, 1, 18446744073709551615, 18446744073709551615],
              LatestEpochWritten = 5\<rparr>
   \<and> markAttestationForTargetEpoch example_config example_history 1 5
       = Inr \<lparr>TargetToSource =
                [18446744073709551615, 18446744073709551615, 18446744073709551615, 2,
                 18446744073709551615, 1, 18446744073709551615, 18446744073709551615],
              LatestEpochWritten = 5\<rparr>
   \<and> markAttestationForTargetEpoch example_config
       \<lparr>TargetToSource =
          [18446744073709551615, 18446744073709551615, 18446744073709551615, 2,
           18446744073709551615, 1, 18446744073709551615, 18446744073709551615],
        LatestEpochWritten = 5\<rparr> 3 4
       = Inr \<lparr>TargetToSource =
                [18446744073709551615, 18446744073709551615, 18446744073709551615, 2,
                 3, 1, 18446744073709551615, 18446744073709551615],
              LatestEpochWritten = 5\<rparr>
   \<and> example_history_saved
       \<noteq> \<lparr>TargetToSource =
            [18446744073709551615, 18446744073709551615, 18446744073709551615, 2,
             3, 1, 18446744073709551615, 18446744073709551615],
          LatestEpochWritten = 5\<rparr>"
  by (simp add: example_run)
     (simp add: example_validator_def example_config_def example_history_def
        example_history_saved_def markAttestationForTargetEpoch_def clear_loop.simps
        write_slot_def)

text \<open>
  Claim C6, amended: in \<open>SubmitAttestation\<close> with slashing protection enabled, after both
  attestations are accepted by the submission sink, the reloaded history is updated by
  applying the commit (\<open>markAttestationForTargetEpoch\<close>) for the first candidate's vote, and
  for that one only, before the history is persisted.
\<close>

theorem SubmitAttestation_commits_first_candidate:
  assumes "ProtectAttester flags"
      and "duty v pubKey = Inr d"
      and "GetAttestationData v 0 slot (DutyCommitteeIndex d) = Inr data1"
      and "fetch_data2 v slot (DutyCommitteeIndex d) data1 data1 1 = Some (Inr data2)"
      and "LoadAttestationHistory v 0 = Inr history0"
      and "isNewAttSlashable cfg history0 (Epoch (Source data1)) (Epoch (Target data1))
             = Some (Inr False)"
      and "signAtt v pubKey data1 = Inr sig1"
      and "signAtt v pubKey data2 = Inr sig2"
      and "committee_index (Committee d) (ValidatorIndex d) 0 = Some i"
      and "bits = (replicate (length (Committee d)) False)[i := True]"
      and "ProposeAttestation v \<lparr>AggregationBits = bits, Data = data1, Signature = sig1\<rparr>
             = Inr resp1"
      and "ProposeAttestation v \<lparr>AggregationBits = bits, Data = data2, Signature = sig2\<rparr>
             = Inr resp2"
      and "LoadAttestationHistory v 1 = Inr history"
      and "markAttestationForTargetEpoch cfg history
             (Epoch (Source data1)) (Epoch (Target data1)) = Inr history'"
  shows "\<exists>rest. trace (SubmitAttestation cfg flags v slot pubKey)
           = [LoadHistory, ConsultSlashable (Epoch (Source data1)) (Epoch (Target data1)),
              SignCall data1, SignCall data2,
              ProposeCall \<lparr>AggregationBits = bits, Data = data1, Signature = sig1\<rparr>,
              ProposeCall \<lparr>AggregationBits = bits, Data = data2, Signature = sig2\<rparr>,
              LoadHistory, SaveHistory history'] @ rest
           \<and> set rest \<subseteq> {IncFail, IncSuccess}"
  using assms by (auto simp: phase_defs Let_def split: option.splits sum.splits)

theorem SubmitAttestation_commits_first_candidate_witness:
  "\<exists>rest. trace (SubmitAttestation example_config \<lparr>ProtectAttester = True\<rparr>
              (example_validator example_history) 160 [1])
     = [LoadHistory, ConsultSlashable (Epoch (Source candidate1)) (Epoch (Target candidate1)),
        SignCall candidate1, SignCall candidate2,
        ProposeCall \<lparr>AggregationBits = [False, True, False], Data = candidate1,
                     Signature = [0]\<rparr>,
        ProposeCall \<lparr>AggregationBits = [False, True, False], Data = candidate2,
                     Signature = [0]\<rparr>,
        LoadHistory, SaveHistory example_history_saved] @ rest
     \<and> set rest \<subseteq> {IncFail, IncSuccess}"
proof (rule SubmitAttestation_commits_first_candidate
         [where d = example_duty and i = 1 and ?history0.0 = example_history
            and history = example_history and ?resp1.0 = "\<lparr>AttestationDataRoot = []\<rparr>"
            and ?resp2.0 = "\<lparr>AttestationDataRoot = []\<rparr>"])
  show "ProtectAttester \<lparr>ProtectAttester = True\<rparr>" by simp
  show "duty (example_validator example_history) [1] = Inr example_duty"
    by (rule example_fetch)
  show "GetAttestationData (example_validator example_history) 0 160
          (DutyCommitteeIndex example_duty) = Inr candidate1"
    unfolding example_committee_index by (rule example_fetch)
  show "fetch_data2 (example_validator example_history) 160
          (DutyCommitteeIndex example_duty) candidate1 candidate1 1 = Some (Inr candidate2)"
    unfolding example_committee_index by (rule example_fetch)
  show "LoadAttestationHistory (example_validator example_history) 0 = Inr example_history"
    by (simp add: example_validator_def)
  show "isNewAttSlashable example_config example_history
          (Epoch (Source candidate1)) (Epoch (Target candidate1)) = Some (Inr False)"
    using example_first_candidate_allowed by (simp add: candidate1_def)
  show "signAtt (example_validator example_history) [1] candidate1 = Inr [0]"
    by (simp add: signAtt_def example_validator_def)
  show "signAtt (example_validator example_history) [1] candidate2 = Inr [0]"
    by (simp add: signAtt_def example_validator_def)
  show "committee_index (Committee example_duty) (ValidatorIndex example_duty) 0 = Some 1"
    by (simp add: example_duty_def)
  show "[False, True, False] = (replicate (length (Committee example_duty)) False)[1 := True]"
    by (simp add: example_duty_def)
  show "ProposeAttestation (example_validator example_history)
          \<lparr>AggregationBits = [False, True, False], Data = candidate1, Signature = [0]\<rparr>
        = Inr \<lparr>AttestationDataRoot = []\<rparr>"
    by (simp add: example_validator_def)
  show "ProposeAttestation (example_validator example_history)
          \<lparr>AggregationBits = [False, True, False], Data = candidate2, Signature = [0]\<rparr>
        = Inr \<lparr>AttestationDataRoot = []\<rparr>"
    by (simp add: example_validator_def)
  show "LoadAttestationHistory (example_validator example_history) 1 = Inr example_history"
    by (simp add: example_validator_def)
  show "markAttestationForTargetEpoch example_config example_history
          (Epoch (Source candidate1)) (Epoch (Target candidate1)) = Inr example_history_saved"
    by (simp add: candidate1_def example_config_def example_history_def
          example_history_saved_def markAttestationForTargetEpoch_def clear_loop.simps
          write_slot_def)
qed

end
